theory Spec2Isabelle
  imports Main
begin

section \<open>JavaScript values as the client and the factory test them\<close>

text \<open>
  The TypeScript sources test values with \<open>!x\<close>, \<open>x || y\<close> and \<open>x && y\<close>, so what
  matters of a value is whether JavaScript reads it as true. A property that is
  \<open>undefined\<close> or \<open>null\<close> (both read as false, and the sources never tell them apart)
  is \<open>None\<close>. Of a \<open>number\<close> only its truth value is ever inspected and the value itself
  is passed on unchanged: \<open>Num n\<close> stands for the number \<open>n\<close> and \<open>NaN\<close> for not-a-number
  (what \<open>parseInt\<close> gives on a malformed setting); \<open>0\<close> and \<open>NaN\<close> read as false.
\<close>

datatype number = Num int | NaN

datatype js_value = Undefined | JString string | JNumber number | JBoolean bool

fun truthy :: "js_value \<Rightarrow> bool" where
  "truthy Undefined = False"
| "truthy (JString s) = (s \<noteq> [])"
| "truthy (JNumber NaN) = False"
| "truthy (JNumber (Num n)) = (n \<noteq> 0)"
| "truthy (JBoolean b) = b"

definition js_string :: "string option \<Rightarrow> js_value" where
  "js_string v = (case v of None \<Rightarrow> Undefined | Some s \<Rightarrow> JString s)"

definition js_number :: "number option \<Rightarrow> js_value" where
  "js_number v = (case v of None \<Rightarrow> Undefined | Some n \<Rightarrow> JNumber n)"

definition js_boolean :: "bool option \<Rightarrow> js_value" where
  "js_boolean v = (case v of None \<Rightarrow> Undefined | Some b \<Rightarrow> JBoolean b)"

text \<open>\<open>a || b\<close> on optional strings, and \<open>a || d\<close> on an optional number with a number \<open>d\<close>.\<close>

definition or_string :: "string option \<Rightarrow> string option \<Rightarrow> string option" where
  "or_string a b = (if truthy (js_string a) then a else b)"

definition or_number :: "number option \<Rightarrow> number \<Rightarrow> number" where
  "or_number a d = (case a of None \<Rightarrow> d | Some n \<Rightarrow> if truthy (JNumber n) then n else d)"

text \<open>Every failure of the sources is \<open>throw new Error(message)\<close>.\<close>

datatype error = Error string

section \<open>The collaborators the factory constructs\<close>

text \<open>
  The classes \<open>Database\<close>, \<open>CryptoService\<close>, \<open>EventRepository\<close> and \<open>EventService\<close> are
  imported by the sources; an instance is recorded as the arguments its constructor
  was given, and the pool of a database as the options of that database.
\<close>

record DatabaseOptions =
  host :: "string option"
  port :: "number option"
  user :: "string option"
  password :: "string option"
  database_name :: "string option"
  ssl :: "bool option"
  poolSize :: "number option"
  idleTimeoutMillis :: "number option"
  debug :: "bool option"

record CryptoOptions =
  algorithm :: "string option"
  hashAlgorithm :: "string option"
  privateKey :: "string option"
  publicKey :: "string option"

record Database =
  db_config :: DatabaseOptions

record CryptoService =
  crypto_options :: CryptoOptions

datatype Pool = PoolOf DatabaseOptions

record EventRepository =
  pool :: Pool

record EventService =
  eventRepository :: EventRepository
  cryptoService :: CryptoService
  svc_maxBulkEvents :: number
  svc_createEventTimeout :: number

section \<open>The client (src/log.client.ts)\<close>

text \<open>
  \<open>CreateEventRequest\<close> and \<open>EventQuery\<close> are imported types. The client reads and
  writes their optional \<open>project_id\<close> and \<open>environment_id\<close> and copies every other
  property with the object spread, so both are the record \<open>Scoped\<close> with its extension
  standing for the other properties.
\<close>

record Scoped =
  project_id :: "string option"
  environment_id :: "string option"

type_synonym 'a CreateEventRequest = "'a Scoped_scheme"

type_synonym 'q EventQuery = "'q Scoped_scheme"

text \<open>A \<open>Date\<close> is only passed on: milliseconds since the epoch.\<close>

type_synonym Date = int

text \<open>
  One constructor per method of the event service, with the arguments of the call. The
  non-null assertion \<open>this.projectId!\<close> is erased when TypeScript is compiled, so the
  fields are passed as they are.
\<close>

datatype ('a, 'q) service_call =
    CreateEvent "'a CreateEventRequest"
  | CreateEvents "'a CreateEventRequest list"
  | QueryEvents "'q EventQuery"
  | GetEvent string "string option" "string option"
  | ValidateEvents "string option" "string option" Date Date
  | SealEvents "string option" "string option" Date
  | ExportToWorm "string option" "string option" Date Date
  | Close

record AuditLogClient =
  projectId :: "string option"
  environmentId :: "string option"
  eventService :: EventService

definition new_AuditLogClient :: "EventService \<Rightarrow> AuditLogClient" where
  "new_AuditLogClient es = \<lparr>projectId = None, environmentId = None, eventService = es\<rparr>"

definition setContext :: "AuditLogClient \<Rightarrow> string \<Rightarrow> string \<Rightarrow> AuditLogClient" where
  "setContext c p e = c\<lparr>projectId := Some p, environmentId := Some e\<rparr>"

definition context_not_set :: error where
  "context_not_set = Error ''Context not set. Call setContext() before performing operations.''"

definition validateContext :: "AuditLogClient \<Rightarrow> error + unit" where
  "validateContext c =
     (if \<not> truthy (js_string (projectId c)) \<or> \<not> truthy (js_string (environmentId c))
      then Inl context_not_set
      else Inr ())"

text \<open>
  The methods of the event service are the parameter \<open>methods\<close>: what a call on a given
  instance returns (a result or a rejection, in \<open>'r\<close>). An operation of the client
  returns what it returns or throws, and the list of the calls it made on the service.
\<close>

type_synonym ('a, 'q, 'r) service_methods = "EventService \<Rightarrow> ('a, 'q) service_call \<Rightarrow> 'r"

type_synonym ('a, 'q, 'r) outcome = "(error + 'r) \<times> ('a, 'q) service_call list"

definition invoke ::
  "('a, 'q, 'r) service_methods \<Rightarrow> AuditLogClient \<Rightarrow> ('a, 'q) service_call \<Rightarrow> ('a, 'q, 'r) outcome" where
  "invoke methods c call = (Inr (methods (eventService c) call), [call])"

definition createEvent ::
  "('a, 'q, 'r) service_methods \<Rightarrow> AuditLogClient \<Rightarrow> 'a CreateEventRequest \<Rightarrow> ('a, 'q, 'r) outcome" where
  "createEvent methods c event =
     (case validateContext c of
        Inl err \<Rightarrow> (Inl err, [])
      | Inr _ \<Rightarrow>
          invoke methods c
            (CreateEvent
               (event\<lparr>project_id := or_string (project_id event) (projectId c),
                      environment_id := or_string (environment_id event) (environmentId c)\<rparr>)))"

definition createEvents ::
  "('a, 'q, 'r) service_methods \<Rightarrow> AuditLogClient \<Rightarrow> 'a CreateEventRequest list \<Rightarrow> ('a, 'q, 'r) outcome" where
  "createEvents methods c events =
     (case validateContext c of
        Inl err \<Rightarrow> (Inl err, [])
      | Inr _ \<Rightarrow>
          invoke methods c
            (CreateEvents
               (map (\<lambda>event.
                       event\<lparr>project_id := or_string (project_id event) (projectId c),
                             environment_id := or_string (environment_id event) (environmentId c)\<rparr>)
                  events)))"

definition queryEvents ::
  "('a, 'q, 'r) service_methods \<Rightarrow> AuditLogClient \<Rightarrow> 'q EventQuery \<Rightarrow> ('a, 'q, 'r) outcome" where
  "queryEvents methods c query =
     (case validateContext c of
        Inl err \<Rightarrow> (Inl err, [])
      | Inr _ \<Rightarrow>
          invoke methods c
            (QueryEvents
               (query\<lparr>project_id := or_string (project_id query) (projectId c),
                      environment_id := or_string (environment_id query) (environmentId c)\<rparr>)))"

definition getEvent ::
  "('a, 'q, 'r) service_methods \<Rightarrow> AuditLogClient \<Rightarrow> string \<Rightarrow> ('a, 'q, 'r) outcome" where
  "getEvent methods c eventId =
     (case validateContext c of
        Inl err \<Rightarrow> (Inl err, [])
      | Inr _ \<Rightarrow> invoke methods c (GetEvent eventId (projectId c) (environmentId c)))"

definition validateEvents ::
  "('a, 'q, 'r) service_methods \<Rightarrow> AuditLogClient \<Rightarrow> Date \<Rightarrow> Date \<Rightarrow> ('a, 'q, 'r) outcome" where
  "validateEvents methods c startTime endTime =
     (case validateContext c of
        Inl err \<Rightarrow> (Inl err, [])
      | Inr _ \<Rightarrow>
          invoke methods c (ValidateEvents (projectId c) (environmentId c) startTime endTime))"

definition sealEvents ::
  "('a, 'q, 'r) service_methods \<Rightarrow> AuditLogClient \<Rightarrow> Date \<Rightarrow> ('a, 'q, 'r) outcome" where
  "sealEvents methods c upToTime =
     (case validateContext c of
        Inl err \<Rightarrow> (Inl err, [])
      | Inr _ \<Rightarrow> invoke methods c (SealEvents (projectId c) (environmentId c) upToTime))"

definition exportToWorm ::
  "('a, 'q, 'r) service_methods \<Rightarrow> AuditLogClient \<Rightarrow> Date \<Rightarrow> Date \<Rightarrow> ('a, 'q, 'r) outcome" where
  "exportToWorm methods c startTime endTime =
     (case validateContext c of
        Inl err \<Rightarrow> (Inl err, [])
      | Inr _ \<Rightarrow>
          invoke methods c (ExportToWorm (projectId c) (environmentId c) startTime endTime))"

definition close :: "('a, 'q, 'r) service_methods \<Rightarrow> AuditLogClient \<Rightarrow> ('a, 'q, 'r) outcome" where
  "close methods c = invoke methods c Close"

section \<open>The factory (src/index.ts)\<close>

text \<open>
  The configuration object. TypeScript declares \<open>database\<close>, \<open>crypto\<close> and their required
  properties as always present, but \<open>validateConfig\<close> tests each of them at run time, so
  each may be missing. The section \<open>config.context\<close> is the field \<open>default_context\<close>, and
  \<open>config.database.database\<close> is the field \<open>database_name\<close> of \<open>DatabaseOptions\<close>.
\<close>

record ApplicationOptions =
  maxBulkEvents :: "number option"
  createEventTimeout :: "number option"

record ValidationOptions =
  validateOnQuery :: "bool option"
  scheduledValidationInterval :: "number option"

record ContextOptions =
  ctx_projectId :: "string option"
  ctx_environmentId :: "string option"

record AuditLogConfig =
  database :: "DatabaseOptions option"
  crypto :: "CryptoOptions option"
  application :: "ApplicationOptions option"
  partitionDays :: "number option"
  sealAfterDays :: "number option"
  wormEnabled :: "bool option"
  wormStoragePath :: "string option"
  validation :: "ValidationOptions option"
  default_context :: "ContextOptions option"

text \<open>\<open>config.database[prop]\<close>: the property of that name, \<open>undefined\<close> for any other name.\<close>

definition database_prop :: "DatabaseOptions \<Rightarrow> string \<Rightarrow> js_value" where
  "database_prop db prop =
     (if prop = ''host'' then js_string (host db)
      else if prop = ''port'' then js_number (port db)
      else if prop = ''user'' then js_string (user db)
      else if prop = ''password'' then js_string (password db)
      else if prop = ''database'' then js_string (database_name db)
      else if prop = ''ssl'' then js_boolean (ssl db)
      else if prop = ''poolSize'' then js_number (poolSize db)
      else if prop = ''idleTimeoutMillis'' then js_number (idleTimeoutMillis db)
      else if prop = ''debug'' then js_boolean (debug db)
      else Undefined)"

definition requiredDbProps :: "string list" where
  "requiredDbProps = [''host'', ''port'', ''user'', ''database'']"

text \<open>The loop over \<open>requiredDbProps\<close>: the first falsy property throws.\<close>

fun check_required :: "DatabaseOptions \<Rightarrow> string list \<Rightarrow> error + unit" where
  "check_required db [] = Inr ()"
| "check_required db (prop # props) =
     (if \<not> truthy (database_prop db prop)
      then Inl (Error (''Database.'' @ prop @ '' is required''))
      else check_required db props)"

definition validateConfig :: "AuditLogConfig \<Rightarrow> error + unit" where
  "validateConfig config =
     (case database config of
        None \<Rightarrow> Inl (Error ''Database configuration is required'')
      | Some db \<Rightarrow>
          (case check_required db requiredDbProps of
             Inl err \<Rightarrow> Inl err
           | Inr _ \<Rightarrow>
               (case crypto config of
                  None \<Rightarrow> Inl (Error ''Crypto configuration is required'')
                | Some cr \<Rightarrow>
                    if \<not> truthy (js_string (privateKey cr))
                    then Inl (Error ''Crypto.privateKey is required'')
                    else if \<not> truthy (js_string (publicKey cr))
                    then Inl (Error ''Crypto.publicKey is required'')
                    else Inr ())))"

definition Database_getInstance :: "DatabaseOptions \<Rightarrow> Database" where
  "Database_getInstance opts = \<lparr>db_config = opts\<rparr>"

definition new_CryptoService :: "CryptoOptions \<Rightarrow> CryptoService" where
  "new_CryptoService opts = \<lparr>crypto_options = opts\<rparr>"

definition getPool :: "Database \<Rightarrow> Pool" where
  "getPool db = PoolOf (db_config db)"

definition new_EventRepository :: "Pool \<Rightarrow> EventRepository" where
  "new_EventRepository p = \<lparr>pool = p\<rparr>"

definition new_EventService ::
  "EventRepository \<Rightarrow> CryptoService \<Rightarrow> number \<Rightarrow> number \<Rightarrow> EventService" where
  "new_EventService repo cs maxBulk timeout =
     \<lparr>eventRepository = repo, cryptoService = cs,
      svc_maxBulkEvents = maxBulk, svc_createEventTimeout = timeout\<rparr>"

text \<open>
  \<open>createAuditLogClient\<close>. After \<open>validateConfig\<close> has returned, \<open>config.database\<close> and
  \<open>config.crypto\<close> are present; reading a property of a missing one would be
  JavaScript's TypeError, the last branch. \<open>x?.f\<close> is \<open>Option.bind x f\<close>.
\<close>

definition createAuditLogClient :: "AuditLogConfig \<Rightarrow> error + AuditLogClient" where
  "createAuditLogClient config =
     (case validateConfig config of
        Inl err \<Rightarrow> Inl err
      | Inr _ \<Rightarrow>
          (case (database config, crypto config) of
             (Some dbo, Some cro) \<Rightarrow>
               (let db = Database_getInstance dbo;
                    cs = new_CryptoService
                           \<lparr>algorithm = or_string (algorithm cro) (Some ''RSA-SHA256''),
                            hashAlgorithm = or_string (hashAlgorithm cro) (Some ''sha256''),
                            privateKey = privateKey cro,
                            publicKey = publicKey cro\<rparr>;
                    repo = new_EventRepository (getPool db);
                    es = new_EventService repo cs
                           (or_number (Option.bind (application config) maxBulkEvents) (Num 1000))
                           (or_number (Option.bind (application config) createEventTimeout) (Num 5000));
                    client = new_AuditLogClient es
                in Inr
                     (case (Option.bind (default_context config) ctx_projectId,
                            Option.bind (default_context config) ctx_environmentId) of
                        (Some p, Some e) \<Rightarrow>
                          if truthy (JString p) \<and> truthy (JString e)
                          then setContext client p e else client
                      | _ \<Rightarrow> client))
           | _ \<Rightarrow> Inl (Error ''TypeError: Cannot read properties of undefined'')))"

section \<open>The schema (initializeDatabase, src/index.ts)\<close>

text \<open>
  \<open>initializeDatabase\<close> sends one SQL text: three \<open>CREATE TABLE IF NOT EXISTS\<close> and five
  \<open>CREATE INDEX IF NOT EXISTS\<close> statements. A column is its name, its type, whether it
  is the primary key, whether it is declared \<open>NOT NULL\<close>, and its \<open>DEFAULT\<close> if it has one.
\<close>

datatype sql_type = UUID | VARCHAR nat | TEXT | BOOLEAN | JSONB | TIMESTAMP | INTEGER | SERIAL

text \<open>
  A value is written as the column stores it, after PostgreSQL has read the input. A
  uuid is the text PostgreSQL prints for it (five groups of 8, 4, 4, 4 and 12 lower-case
  hexadecimal digits), a timestamp is its number of microseconds since
  2000-01-01 00:00:00, and a jsonb value is the document (of its numbers only the
  integers are written).
\<close>

datatype json =
    JsonNull
  | JsonBool bool
  | JsonNumber int
  | JsonString string
  | JsonArray "json list"
  | JsonObject "(string \<times> json) list"

datatype sql_value =
    SqlNull
  | SqlBool bool
  | SqlInt int
  | SqlText string
  | SqlTimestamp int
  | SqlJson json

record column =
  col_name :: string
  col_type :: sql_type
  primary_key :: bool
  not_null :: bool
  col_default :: "sql_value option"

definition nullable_col :: "string \<Rightarrow> sql_type \<Rightarrow> column" where
  "nullable_col n t =
     \<lparr>col_name = n, col_type = t, primary_key = False, not_null = False, col_default = None\<rparr>"

definition not_null_col :: "string \<Rightarrow> sql_type \<Rightarrow> column" where
  "not_null_col n t =
     \<lparr>col_name = n, col_type = t, primary_key = False, not_null = True, col_default = None\<rparr>"

definition primary_key_col :: "string \<Rightarrow> sql_type \<Rightarrow> column" where
  "primary_key_col n t =
     \<lparr>col_name = n, col_type = t, primary_key = True, not_null = False, col_default = None\<rparr>"

definition default_col :: "string \<Rightarrow> sql_type \<Rightarrow> sql_value \<Rightarrow> column" where
  "default_col n t v =
     \<lparr>col_name = n, col_type = t, primary_key = False, not_null = False, col_default = Some v\<rparr>"

definition audit_events_columns :: "column list" where
  "audit_events_columns =
     [primary_key_col ''id'' UUID,
      not_null_col ''action'' (VARCHAR 255),
      not_null_col ''crud'' (VARCHAR 10),
      nullable_col ''group_id'' (VARCHAR 255),
      nullable_col ''group_name'' (VARCHAR 255),
      nullable_col ''actor_id'' (VARCHAR 255),
      nullable_col ''actor_name'' (VARCHAR 255),
      nullable_col ''actor_href'' (VARCHAR 1024),
      nullable_col ''target_id'' (VARCHAR 255),
      nullable_col ''target_name'' (VARCHAR 255),
      nullable_col ''target_href'' (VARCHAR 1024),
      nullable_col ''target_type'' (VARCHAR 255),
      nullable_col ''source_ip'' (VARCHAR 50),
      nullable_col ''description'' TEXT,
      default_col ''is_anonymous'' BOOLEAN (SqlBool False),
      default_col ''is_failure'' BOOLEAN (SqlBool False),
      nullable_col ''component'' (VARCHAR 255),
      nullable_col ''version'' (VARCHAR 50),
      nullable_col ''external_id'' (VARCHAR 255),
      nullable_col ''fields'' JSONB,
      nullable_col ''metadata'' JSONB,
      not_null_col ''created_at'' TIMESTAMP,
      not_null_col ''received_at'' TIMESTAMP,
      not_null_col ''project_id'' (VARCHAR 255),
      not_null_col ''environment_id'' (VARCHAR 255),
      not_null_col ''hash'' (VARCHAR 128),
      nullable_col ''previous_hash'' (VARCHAR 128),
      not_null_col ''signature'' TEXT,
      nullable_col ''actor_fields'' JSONB,
      nullable_col ''target_fields'' JSONB]"

definition ingest_task_columns :: "column list" where
  "ingest_task_columns =
     [primary_key_col ''id'' UUID,
      not_null_col ''original_event'' JSONB,
      not_null_col ''project_id'' (VARCHAR 255),
      not_null_col ''environment_id'' (VARCHAR 255),
      not_null_col ''new_event_id'' UUID,
      not_null_col ''received'' TIMESTAMP,
      default_col ''processed'' BOOLEAN (SqlBool False)]"

definition backlog_columns :: "column list" where
  "backlog_columns =
     [primary_key_col ''id'' SERIAL,
      not_null_col ''project_id'' (VARCHAR 255),
      not_null_col ''environment_id'' (VARCHAR 255),
      not_null_col ''new_event_id'' UUID,
      not_null_col ''received'' TIMESTAMP,
      not_null_col ''original_event'' JSONB,
      default_col ''processed'' BOOLEAN (SqlBool False),
      default_col ''attempts'' INTEGER (SqlInt 0),
      nullable_col ''last_attempt'' TIMESTAMP]"

datatype ddl =
    CreateTableIfNotExists string "column list"
  | CreateIndexIfNotExists string string "string list"

definition schema_statements :: "ddl list" where
  "schema_statements =
     [CreateTableIfNotExists ''audit_events'' audit_events_columns,
      CreateIndexIfNotExists ''idx_audit_events_project_env'' ''audit_events''
        [''project_id'', ''environment_id''],
      CreateIndexIfNotExists ''idx_audit_events_created_at'' ''audit_events'' [''created_at''],
      CreateIndexIfNotExists ''idx_audit_events_actor_id'' ''audit_events'' [''actor_id''],
      CreateIndexIfNotExists ''idx_audit_events_target_id'' ''audit_events'' [''target_id''],
      CreateIndexIfNotExists ''idx_audit_events_action'' ''audit_events'' [''action''],
      CreateTableIfNotExists ''ingest_task'' ingest_task_columns,
      CreateTableIfNotExists ''backlog'' backlog_columns]"

text \<open>
  The catalog of the database: its tables and indexes by name. \<open>IF NOT EXISTS\<close> leaves an
  object that already has the name as it is.
\<close>

record catalog =
  tables :: "string \<rightharpoonup> column list"
  indexes :: "string \<rightharpoonup> string \<times> string list"

definition empty_catalog :: catalog where
  "empty_catalog = \<lparr>tables = Map.empty, indexes = Map.empty\<rparr>"

fun exec_ddl :: "catalog \<Rightarrow> ddl \<Rightarrow> catalog" where
  "exec_ddl cat (CreateTableIfNotExists name cols) =
     (if tables cat name = None then cat\<lparr>tables := (tables cat)(name \<mapsto> cols)\<rparr> else cat)"
| "exec_ddl cat (CreateIndexIfNotExists name tbl cols) =
     (if indexes cat name = None then cat\<lparr>indexes := (indexes cat)(name \<mapsto> (tbl, cols))\<rparr> else cat)"

definition initializeDatabase :: "catalog \<Rightarrow> catalog" where
  "initializeDatabase cat = foldl exec_ddl cat schema_statements"

subsection \<open>Rows under a schema\<close>

text \<open>
  What the declarations of a table mean for an \<open>INSERT\<close> into a table that holds the
  rows \<open>tbl\<close>: a column the statement does not name takes its \<open>DEFAULT\<close> (the next
  sequence number \<open>seq\<close> for a \<open>SERIAL\<close> column, \<open>NULL\<close> when it has none). The
  statement is refused when it names a column the table does not have or names one
  twice, when a value is not one of its column's type, when a column that is
  \<open>NOT NULL\<close>, the primary key or \<open>SERIAL\<close> would hold \<open>NULL\<close>, and when the primary
  key is that of a row the table already holds. A row lists its values by column name,
  in the order of the columns.
\<close>

type_synonym row = "(string \<times> sql_value) list"

definition hex_digit :: "char \<Rightarrow> bool" where
  "hex_digit ch = (ch \<in> set ''0123456789abcdef'')"

definition uuid_text :: "string \<Rightarrow> bool" where
  "uuid_text s =
     (length s = 36
      \<and> list_all hex_digit (take 8 s) \<and> s ! 8 = CHR ''-''
      \<and> list_all hex_digit (take 4 (drop 9 s)) \<and> s ! 13 = CHR ''-''
      \<and> list_all hex_digit (take 4 (drop 14 s)) \<and> s ! 18 = CHR ''-''
      \<and> list_all hex_digit (take 4 (drop 19 s)) \<and> s ! 23 = CHR ''-''
      \<and> list_all hex_digit (drop 24 s))"

text \<open>
  The values of each type; \<open>NULL\<close> is one of every type. The bounds are those of
  PostgreSQL: a \<open>varchar(n)\<close> holds at most \<open>n\<close> characters, an \<open>integer\<close> is 32 bits
  wide, and a timestamp lies between 4713 BC and 294276 AD.
\<close>

fun fits :: "sql_type \<Rightarrow> sql_value \<Rightarrow> bool" where
  "fits t SqlNull = True"
| "fits UUID (SqlText s) = uuid_text s"
| "fits (VARCHAR n) (SqlText s) = (length s \<le> n)"
| "fits TEXT (SqlText s) = True"
| "fits BOOLEAN (SqlBool b) = True"
| "fits JSONB (SqlJson j) = True"
| "fits TIMESTAMP (SqlTimestamp t) = (- 211813488000000000 \<le> t \<and> t < 9223371331200000000)"
| "fits INTEGER (SqlInt i) = (- 2147483648 \<le> i \<and> i \<le> 2147483647)"
| "fits SERIAL (SqlInt i) = (- 2147483648 \<le> i \<and> i \<le> 2147483647)"
| "fits t v = False"

definition default_value :: "int \<Rightarrow> column \<Rightarrow> sql_value" where
  "default_value seq c =
     (case col_default c of
        Some v \<Rightarrow> v
      | None \<Rightarrow> if col_type c = SERIAL then SqlInt seq else SqlNull)"

definition stored_value :: "row \<Rightarrow> int \<Rightarrow> column \<Rightarrow> sql_value" where
  "stored_value given seq c =
     (case map_of given (col_name c) of Some v \<Rightarrow> v | None \<Rightarrow> default_value seq c)"

definition required_col :: "column \<Rightarrow> bool" where
  "required_col c = (not_null c \<or> primary_key c \<or> col_type c = SERIAL)"

definition key_taken :: "row list \<Rightarrow> column \<Rightarrow> sql_value \<Rightarrow> bool" where
  "key_taken tbl c v = (primary_key c \<and> list_ex (\<lambda>old. map_of old (col_name c) = Some v) tbl)"

definition insert_row :: "column list \<Rightarrow> row list \<Rightarrow> int \<Rightarrow> row \<Rightarrow> error + row" where
  "insert_row cols tbl seq given =
     (if list_ex (\<lambda>n. n \<notin> set (map col_name cols)) (map fst given)
      then Inl (Error ''column does not exist'')
      else if \<not> distinct (map fst given)
      then Inl (Error ''column specified more than once'')
      else if list_ex (\<lambda>c. \<not> fits (col_type c) (stored_value given seq c)) cols
      then Inl (Error ''invalid input for the type of the column'')
      else if list_ex (\<lambda>c. required_col c \<and> stored_value given seq c = SqlNull) cols
      then Inl (Error ''null value violates not-null constraint'')
      else if list_ex (\<lambda>c. key_taken tbl c (stored_value given seq c)) cols
      then Inl (Error ''duplicate key value violates unique constraint'')
      else Inr (map (\<lambda>c. (col_name c, stored_value given seq c)) cols))"

text \<open>A table filled by a sequence of inserts, the first failure aborting.\<close>

fun insert_all :: "column list \<Rightarrow> row list \<Rightarrow> row list \<Rightarrow> error + row list" where
  "insert_all cols tbl [] = Inr tbl"
| "insert_all cols tbl (given # rest) =
     (case insert_row cols tbl (int (length tbl) + 1) given of
        Inl err \<Rightarrow> Inl err
      | Inr r \<Rightarrow> insert_all cols (tbl @ [r]) rest)"

section \<open>Definitions that follow the specification\<close>

text \<open>
  The forwarding rule in the words of the specification: a request's own non-empty
  identifier is kept, an absent or empty one is replaced by the bound context value.
\<close>

definition forwarded_id :: "string option \<Rightarrow> string \<Rightarrow> string option" where
  "forwarded_id requested bound =
     (case requested of
        None \<Rightarrow> Some bound
      | Some v \<Rightarrow> if v = [] then Some bound else Some v)"

text \<open>
  Modelled from the spec: \<open>EventService.getEvent\<close> and the repository it reads are not
  among the sources. The specification gives the lookup as
  "get_event(id, project, env): scoped lookup, returns the event or not found": the
  stored event with that id in that project and environment, the store being the rows
  of \<open>audit_events\<close>.
\<close>

definition get_event :: "row list \<Rightarrow> string \<Rightarrow> string option \<Rightarrow> string option \<Rightarrow> row option" where
  "get_event store eventId p e =
     find (\<lambda>r. map_of r ''id'' = Some (SqlText eventId)
              \<and> map_of r ''project_id'' = map_option SqlText p
              \<and> map_of r ''environment_id'' = map_option SqlText e) store"

text \<open>
  Invariant I6 of the specification on one row of \<open>backlog\<close>: \<open>processed = true\<close> or
  \<open>attempts < MAX_ATTEMPTS\<close>. \<open>MAX_ATTEMPTS\<close> is not among the sources (the specification
  gives 10 as its default), so it is the parameter \<open>max_attempts\<close>.
\<close>

definition backlog_progress :: "int \<Rightarrow> row \<Rightarrow> bool" where
  "backlog_progress max_attempts r =
     (map_of r ''processed'' = Some (SqlBool True)
      \<or> (case map_of r ''attempts'' of Some (SqlInt n) \<Rightarrow> n < max_attempts | _ \<Rightarrow> False))"

section \<open>Concrete inputs\<close>

definition example_database :: DatabaseOptions where
  "example_database =
     \<lparr>host = Some ''localhost'', port = Some (Num 5432), user = Some ''postgres'',
      password = None, database_name = Some ''audit_logs'', ssl = None, poolSize = None,
      idleTimeoutMillis = None, debug = None\<rparr>"

definition example_crypto :: CryptoOptions where
  "example_crypto =
     \<lparr>algorithm = None, hashAlgorithm = None,
      privateKey = Some ''PRIVATE KEY'', publicKey = Some ''PUBLIC KEY''\<rparr>"

definition example_config :: AuditLogConfig where
  "example_config =
     \<lparr>database = Some example_database, crypto = Some example_crypto, application = None,
      partitionDays = None, sealAfterDays = None, wormEnabled = None, wormStoragePath = None,
      validation = None, default_context = None\<rparr>"

definition example_service :: EventService where
  "example_service =
     new_EventService (new_EventRepository (getPool (Database_getInstance example_database)))
       (new_CryptoService
          (example_crypto\<lparr>algorithm := Some ''RSA-SHA256'', hashAlgorithm := Some ''sha256''\<rparr>))
       (Num 1000) (Num 5000)"

definition example_client :: AuditLogClient where
  "example_client = setContext (new_AuditLogClient example_service) ''P'' ''E''"

definition example_methods :: "(unit, unit, unit) service_methods" where
  "example_methods es call = ()"

definition example_request :: "unit CreateEventRequest" where
  "example_request = \<lparr>project_id = None, environment_id = None\<rparr>"

definition example_event :: row where
  "example_event =
     [(''id'', SqlText ''7d3c1f0a-5b2e-4c8d-9a6f-0123456789ab''),
      (''action'', SqlText ''user.create''), (''crud'', SqlText ''create''),
      (''actor_id'', SqlText ''u1''),
      (''created_at'', SqlTimestamp 757382400000000),
      (''received_at'', SqlTimestamp 757382400000000),
      (''project_id'', SqlText ''P''), (''environment_id'', SqlText ''E''),
      (''hash'', SqlText ''ab12''), (''signature'', SqlText ''c2ln'')]"

text \<open>A later event of the same stream, also submitted without \<open>previous_hash\<close>.\<close>

definition second_event :: row where
  "second_event =
     [(''id'', SqlText ''0b9e4c2d-1a3f-4e5b-8c7d-ba9876543210''),
      (''action'', SqlText ''user.update''), (''crud'', SqlText ''update''),
      (''actor_id'', SqlText ''u1''),
      (''created_at'', SqlTimestamp 757382460000000),
      (''received_at'', SqlTimestamp 757382460000000),
      (''project_id'', SqlText ''P''), (''environment_id'', SqlText ''E''),
      (''hash'', SqlText ''cd34''), (''signature'', SqlText ''d3mo'')]"

text \<open>The rows that inserting them into \<open>audit_events\<close> stores.\<close>

definition example_row :: row where
  "example_row = map (\<lambda>c. (col_name c, stored_value example_event 1 c)) audit_events_columns"

definition second_row :: row where
  "second_row = map (\<lambda>c. (col_name c, stored_value second_event 2 c)) audit_events_columns"

definition example_store :: "row list" where
  "example_store = [example_row]"

text \<open>
  Modelled from the spec: an event service that answers \<open>getEvent\<close> from \<open>get_event\<close>
  over a store. Its other methods are not modelled, and nothing is proved about them.
\<close>

definition store_methods :: "row list \<Rightarrow> (unit, unit, row option) service_methods" where
  "store_methods store es call =
     (case call of GetEvent i p e \<Rightarrow> get_event store i p e | _ \<Rightarrow> None)"

definition example_task :: row where
  "example_task =
     [(''project_id'', SqlText ''P''), (''environment_id'', SqlText ''E''),
      (''new_event_id'', SqlText ''7d3c1f0a-5b2e-4c8d-9a6f-0123456789ab''),
      (''received'', SqlTimestamp 757382400000000),
      (''original_event'', SqlJson (JsonObject [(''action'', JsonString ''user.create'')]))]"

text \<open>The row that inserting \<open>example_task\<close> into an empty \<open>backlog\<close> stores.\<close>

definition example_backlog_row :: "sql_value \<Rightarrow> row" where
  "example_backlog_row attempts =
     [(''id'', SqlInt 1), (''project_id'', SqlText ''P''), (''environment_id'', SqlText ''E''),
      (''new_event_id'', SqlText ''7d3c1f0a-5b2e-4c8d-9a6f-0123456789ab''),
      (''received'', SqlTimestamp 757382400000000),
      (''original_event'', SqlJson (JsonObject [(''action'', JsonString ''user.create'')])),
      (''processed'', SqlBool False), (''attempts'', attempts), (''last_attempt'', SqlNull)]"

section \<open>The context guard of the client\<close>

lemma validateContext_set:
  "projectId c = Some p \<Longrightarrow> p \<noteq> [] \<Longrightarrow> environmentId c = Some e \<Longrightarrow> e \<noteq> [] \<Longrightarrow>
   validateContext c = Inr ()"
  by (simp add: validateContext_def js_string_def)

lemma validateContext_missing:
  "projectId c = None \<or> projectId c = Some [] \<or> environmentId c = None \<or> environmentId c = Some [] \<Longrightarrow>
   validateContext c = Inl context_not_set"
  by (auto simp add: validateContext_def js_string_def)

lemma or_string_forwarded: "b \<noteq> [] \<Longrightarrow> or_string a (Some b) = forwarded_id a b"
  by (simp add: or_string_def forwarded_id_def js_string_def split: option.splits)

lemmas client_ops =
  createEvent_def createEvents_def queryEvents_def getEvent_def validateEvents_def
  sealEvents_def exportToWorm_def

lemma operations_throw:
  fixes methods :: "('a, 'q, 'r) service_methods"
  assumes "validateContext c = Inl err"
  shows "createEvent methods c ev = (Inl err, [])"
    and "createEvents methods c evs = (Inl err, [])"
    and "queryEvents methods c q = (Inl err, [])"
    and "getEvent methods c i = (Inl err, [])"
    and "validateEvents methods c startTime endTime = (Inl err, [])"
    and "sealEvents methods c upToTime = (Inl err, [])"
    and "exportToWorm methods c startTime endTime = (Inl err, [])"
  using assms by (simp_all add: client_ops)

lemma operations_delegate:
  fixes methods :: "('a, 'q, 'r) service_methods"
  assumes "validateContext c = Inr ()"
  shows "createEvent methods c ev =
           invoke methods c (CreateEvent (ev\<lparr>project_id := or_string (project_id ev) (projectId c),
                      environment_id := or_string (environment_id ev) (environmentId c)\<rparr>))"
    and "createEvents methods c evs =
           invoke methods c (CreateEvents (map (\<lambda>ev. ev\<lparr>project_id := or_string (project_id ev) (projectId c),
                      environment_id := or_string (environment_id ev) (environmentId c)\<rparr>) evs))"
    and "queryEvents methods c q =
           invoke methods c (QueryEvents (q\<lparr>project_id := or_string (project_id q) (projectId c),
                      environment_id := or_string (environment_id q) (environmentId c)\<rparr>))"
    and "getEvent methods c i = invoke methods c (GetEvent i (projectId c) (environmentId c))"
    and "validateEvents methods c startTime endTime = invoke methods c (ValidateEvents (projectId c) (environmentId c) startTime endTime)"
    and "sealEvents methods c upToTime = invoke methods c (SealEvents (projectId c) (environmentId c) upToTime)"
    and "exportToWorm methods c startTime endTime = invoke methods c (ExportToWorm (projectId c) (environmentId c) startTime endTime)"
  using assms by (simp_all add: client_ops)

lemma setContext_fields:
  "projectId (setContext c p e) = Some p"
  "environmentId (setContext c p e) = Some e"
  "eventService (setContext c p e) = eventService c"
  by (simp_all add: setContext_def)

text \<open>
  Claim C1, amended. On a client whose \<open>projectId\<close> or \<open>environmentId\<close> is null, each of
  the seven operations throws the context error and makes no call on the event service.
  After \<open>setContext p e\<close> with both strings non-empty, each operation makes exactly one
  call, on the corresponding method of the client's event service with the bound
  context, and returns what that call returns. (Stated for every \<open>p\<close> and \<open>e\<close> the
  second half fails: an empty string leaves the guard closed, as shown after the witness.)
\<close>

theorem C1_context_guard:
  fixes methods :: "('a, 'q, 'r) service_methods"
  shows
    "(projectId c = None \<or> environmentId c = None \<longrightarrow>
        createEvent methods c ev = (Inl context_not_set, [])
      \<and> createEvents methods c evs = (Inl context_not_set, [])
      \<and> queryEvents methods c q = (Inl context_not_set, [])
      \<and> getEvent methods c i = (Inl context_not_set, [])
      \<and> validateEvents methods c startTime endTime = (Inl context_not_set, [])
      \<and> sealEvents methods c upToTime = (Inl context_not_set, [])
      \<and> exportToWorm methods c startTime endTime = (Inl context_not_set, []))
   \<and> (p \<noteq> [] \<and> e \<noteq> [] \<longrightarrow>
        (let c' = setContext c p e;
             call1 = CreateEvent (ev\<lparr>project_id := or_string (project_id ev) (Some p),
                                      environment_id := or_string (environment_id ev) (Some e)\<rparr>);
             call2 = CreateEvents (map (\<lambda>x. x\<lparr>project_id := or_string (project_id x) (Some p),
                                      environment_id := or_string (environment_id x) (Some e)\<rparr>) evs);
             call3 = QueryEvents (q\<lparr>project_id := or_string (project_id q) (Some p),
                                      environment_id := or_string (environment_id q) (Some e)\<rparr>);
             call4 = GetEvent i (Some p) (Some e);
             call5 = ValidateEvents (Some p) (Some e) startTime endTime;
             call6 = SealEvents (Some p) (Some e) upToTime;
             call7 = ExportToWorm (Some p) (Some e) startTime endTime
         in createEvent methods c' ev = (Inr (methods (eventService c) call1), [call1])
          \<and> createEvents methods c' evs = (Inr (methods (eventService c) call2), [call2])
          \<and> queryEvents methods c' q = (Inr (methods (eventService c) call3), [call3])
          \<and> getEvent methods c' i = (Inr (methods (eventService c) call4), [call4])
          \<and> validateEvents methods c' startTime endTime = (Inr (methods (eventService c) call5), [call5])
          \<and> sealEvents methods c' upToTime = (Inr (methods (eventService c) call6), [call6])
          \<and> exportToWorm methods c' startTime endTime = (Inr (methods (eventService c) call7), [call7])))"
    (is "(?A \<longrightarrow> ?B) \<and> (?C \<longrightarrow> ?D)")
proof (rule conjI; rule impI)
  assume ?A
  then have v: "validateContext c = Inl context_not_set"
    by (auto intro: validateContext_missing)
  show ?B
    by (simp add: operations_throw [OF v])
next
  assume ?C
  then have v: "validateContext (setContext c p e) = Inr ()"
    by (simp add: validateContext_set setContext_fields)
  show ?D
    by (simp add: Let_def operations_delegate [OF v] invoke_def setContext_fields)
qed

text \<open>
  Both halves at concrete inputs: a fresh client, and the same client after
  \<open>setContext ''P'' ''E''\<close>.
\<close>

theorem C1_context_guard_witness:
  "projectId (new_AuditLogClient example_service) = None
   \<and> createEvent example_methods (new_AuditLogClient example_service) example_request
       = (Inl context_not_set, [])
   \<and> getEvent example_methods (new_AuditLogClient example_service) ''7d3c''
       = (Inl context_not_set, [])
   \<and> ''P'' \<noteq> [] \<and> ''E'' \<noteq> []
   \<and> createEvent example_methods (setContext (new_AuditLogClient example_service) ''P'' ''E'')
        example_request
       = (Inr (), [CreateEvent \<lparr>project_id = Some ''P'', environment_id = Some ''E''\<rparr>])
   \<and> getEvent example_methods (setContext (new_AuditLogClient example_service) ''P'' ''E'') ''7d3c''
       = (Inr (), [GetEvent ''7d3c'' (Some ''P'') (Some ''E'')])"
  using C1_context_guard [of "new_AuditLogClient example_service" example_methods example_request
      "[]" example_request "''7d3c''" 0 0 0 "''P''" "''E''"]
  by (simp add: new_AuditLogClient_def Let_def or_string_def js_string_def example_request_def)

text \<open>
  \<open>setContext('', 'production')\<close> sets both fields (neither is null), and \<open>createEvent\<close>
  still throws the context error without calling the event service.
\<close>

theorem C1_counterexample:
  "projectId (setContext (new_AuditLogClient example_service) [] ''production'') = Some []
   \<and> environmentId (setContext (new_AuditLogClient example_service) [] ''production'')
       = Some ''production''
   \<and> createEvent example_methods
        (setContext (new_AuditLogClient example_service) [] ''production'') example_request
       = (Inl context_not_set, [])"
  by (simp add: setContext_def new_AuditLogClient_def createEvent_def validateContext_def
      js_string_def)

text \<open>
  Claim C2. On a client whose context is set (both fields bound to non-empty strings, so
  that the guard passes), \<open>createEvent\<close>, \<open>createEvents\<close> and \<open>queryEvents\<close> forward
  each request to the event service with \<open>project_id\<close> (and likewise \<open>environment_id\<close>)
  as \<open>forwarded_id\<close> gives it: the request's own value when it is non-empty, the bound
  context value when it is absent or empty; every other property is forwarded unchanged.
\<close>

theorem C2_context_applied:
  fixes methods :: "('a, 'q, 'r) service_methods"
  assumes "projectId c = Some p" and "p \<noteq> []" and "environmentId c = Some e" and "e \<noteq> []"
  shows
    "createEvent methods c ev =
       (let call = CreateEvent (ev\<lparr>project_id := forwarded_id (project_id ev) p,
                                    environment_id := forwarded_id (environment_id ev) e\<rparr>)
        in (Inr (methods (eventService c) call), [call]))
     \<and> createEvents methods c evs =
       (let call = CreateEvents
                     (map (\<lambda>x. x\<lparr>project_id := forwarded_id (project_id x) p,
                                   environment_id := forwarded_id (environment_id x) e\<rparr>) evs)
        in (Inr (methods (eventService c) call), [call]))
     \<and> queryEvents methods c q =
       (let call = QueryEvents (q\<lparr>project_id := forwarded_id (project_id q) p,
                                    environment_id := forwarded_id (environment_id q) e\<rparr>)
        in (Inr (methods (eventService c) call), [call]))"
proof -
  have v: "validateContext c = Inr ()"
    using assms by (rule validateContext_set)
  show ?thesis
    using assms
    by (simp add: Let_def operations_delegate [OF v] invoke_def or_string_forwarded)
qed

theorem C2_context_applied_witness:
  "projectId example_client = Some ''P'' \<and> ''P'' \<noteq> []
   \<and> environmentId example_client = Some ''E'' \<and> ''E'' \<noteq> []
   \<and> createEvents example_methods example_client
        [\<lparr>project_id = Some ''Q'', environment_id = Some []\<rparr>,
         \<lparr>project_id = None, environment_id = Some ''staging''\<rparr>]
       = (Inr (), [CreateEvents [\<lparr>project_id = Some ''Q'', environment_id = Some ''E''\<rparr>,
                                 \<lparr>project_id = Some ''P'', environment_id = Some ''staging''\<rparr>]])
   \<and> queryEvents example_methods example_client \<lparr>project_id = Some [], environment_id = None\<rparr>
       = (Inr (), [QueryEvents \<lparr>project_id = Some ''P'', environment_id = Some ''E''\<rparr>])"
proof -
  have h: "projectId example_client = Some ''P''" "''P'' \<noteq> []"
    "environmentId example_client = Some ''E''" "''E'' \<noteq> []"
    by (simp_all add: example_client_def setContext_def)
  show ?thesis
    using h C2_context_applied [OF h, of example_methods example_request
        "[\<lparr>project_id = Some ''Q'', environment_id = Some []\<rparr>,
          \<lparr>project_id = None, environment_id = Some ''staging''\<rparr>]"
        "\<lparr>project_id = Some [], environment_id = None\<rparr>"]
    by (simp add: Let_def forwarded_id_def)
qed

text \<open>
  Claim C9. When \<open>p\<close> or \<open>e\<close> is the empty string, after \<open>setContext p e\<close> every
  operation throws the context error and makes no call on the event service, whatever
  the context of the client was before.
\<close>

theorem C9_empty_context_is_unset:
  fixes methods :: "('a, 'q, 'r) service_methods"
  assumes "p = [] \<or> e = []"
  shows
    "createEvent methods (setContext c p e) ev = (Inl context_not_set, [])
     \<and> createEvents methods (setContext c p e) evs = (Inl context_not_set, [])
     \<and> queryEvents methods (setContext c p e) q = (Inl context_not_set, [])
     \<and> getEvent methods (setContext c p e) i = (Inl context_not_set, [])
     \<and> validateEvents methods (setContext c p e) startTime endTime = (Inl context_not_set, [])
     \<and> sealEvents methods (setContext c p e) upToTime = (Inl context_not_set, [])
     \<and> exportToWorm methods (setContext c p e) startTime endTime = (Inl context_not_set, [])"
proof -
  have v: "validateContext (setContext c p e) = Inl context_not_set"
    using assms by (auto intro: validateContext_missing simp add: setContext_fields)
  show ?thesis
    by (simp add: operations_throw [OF v])
qed

theorem C9_empty_context_is_unset_witness:
  "(''P'' = [] \<or> ([]::string) = [])
   \<and> sealEvents example_methods (setContext example_client ''P'' []) 1700000000000
       = (Inl context_not_set, [])
   \<and> createEvent example_methods (setContext example_client ''P'' [])
        \<lparr>project_id = Some ''Q'', environment_id = Some ''staging''\<rparr>
       = (Inl context_not_set, [])"
  using C9_empty_context_is_unset [where p = "''P''" and e = "[]" and methods = example_methods
      and c = example_client and upToTime = 1700000000000
      and ev = "\<lparr>project_id = Some ''Q'', environment_id = Some ''staging''\<rparr>"]
  by simp

section \<open>The factory: validation, defaults and the default context\<close>

lemma check_required_ok:
  "check_required db requiredDbProps = Inr () \<longleftrightarrow>
     truthy (js_string (host db)) \<and> truthy (js_number (port db))
     \<and> truthy (js_string (user db)) \<and> truthy (js_string (database_name db))"
  by (simp add: requiredDbProps_def database_prop_def)

lemma validateConfig_ok:
  "validateConfig config = Inr () \<longleftrightarrow>
     (\<exists>db cr. database config = Some db \<and> check_required db requiredDbProps = Inr ()
        \<and> crypto config = Some cr
        \<and> truthy (js_string (privateKey cr)) \<and> truthy (js_string (publicKey cr)))"
  by (auto simp add: validateConfig_def split: option.splits sum.splits)

lemma createAuditLogClient_throws:
  "validateConfig config = Inl err \<Longrightarrow> createAuditLogClient config = Inl err"
  by (simp add: createAuditLogClient_def)

lemma createAuditLogClient_valid:
  "createAuditLogClient config = Inr c \<Longrightarrow> validateConfig config = Inr ()"
  by (auto simp add: createAuditLogClient_def split: sum.splits)

lemma createAuditLogClient_settings:
  assumes "createAuditLogClient config = Inr c"
  shows "svc_maxBulkEvents (eventService c) =
           or_number (Option.bind (application config) maxBulkEvents) (Num 1000)"
    and "svc_createEventTimeout (eventService c) =
           or_number (Option.bind (application config) createEventTimeout) (Num 5000)"
  using assms
  by (auto simp add: createAuditLogClient_def Let_def setContext_def new_AuditLogClient_def
      new_EventService_def split: sum.splits option.splits if_splits)

lemma createAuditLogClient_crypto:
  assumes "createAuditLogClient config = Inr c"
  shows "\<exists>cro. crypto config = Some cro
           \<and> crypto_options (cryptoService (eventService c)) =
               \<lparr>algorithm = or_string (algorithm cro) (Some ''RSA-SHA256''),
                hashAlgorithm = or_string (hashAlgorithm cro) (Some ''sha256''),
                privateKey = privateKey cro, publicKey = publicKey cro\<rparr>"
  using assms
  by (auto simp add: createAuditLogClient_def Let_def setContext_def new_AuditLogClient_def
      new_EventService_def new_CryptoService_def split: sum.splits option.splits if_splits)

lemma createAuditLogClient_context:
  assumes "createAuditLogClient config = Inr c"
  shows "(projectId c, environmentId c) =
           (case (Option.bind (default_context config) ctx_projectId,
                  Option.bind (default_context config) ctx_environmentId) of
              (Some p, Some e) \<Rightarrow> if p \<noteq> [] \<and> e \<noteq> [] then (Some p, Some e) else (None, None)
            | _ \<Rightarrow> (None, None))"
  using assms
  by (auto simp add: createAuditLogClient_def Let_def setContext_def new_AuditLogClient_def
      split: sum.splits option.splits if_splits)

lemma or_number_cases:
  "or_number None d = d"
  "or_number (Some NaN) d = d"
  "or_number (Some (Num 0)) d = d"
  "m \<noteq> Num 0 \<Longrightarrow> m \<noteq> NaN \<Longrightarrow> or_number (Some m) d = m"
  by (cases m; simp add: or_number_def)+

text \<open>
  Claim C3, amended. For every configuration that \<open>createAuditLogClient\<close> accepts: when
  the \<open>application\<close> section or its \<open>maxBulkEvents\<close> is omitted the event service is
  constructed with 1000 bulk events, when \<open>createEventTimeout\<close> is omitted with a
  timeout of 5000; a supplied value other than 0 and NaN is used as it is; a supplied 0
  or NaN is replaced by the default like an omitted one. (Not every supplied value is
  used, as shown after the witness.)
\<close>

theorem C3_application_defaults:
  assumes "createAuditLogClient config = Inr c"
  shows
    "(application config = None \<longrightarrow>
        svc_maxBulkEvents (eventService c) = Num 1000
      \<and> svc_createEventTimeout (eventService c) = Num 5000)
   \<and> (application config = Some a \<longrightarrow>
        (maxBulkEvents a = None \<longrightarrow> svc_maxBulkEvents (eventService c) = Num 1000)
      \<and> (createEventTimeout a = None \<longrightarrow> svc_createEventTimeout (eventService c) = Num 5000)
      \<and> (maxBulkEvents a = Some m \<and> m \<noteq> Num 0 \<and> m \<noteq> NaN \<longrightarrow>
            svc_maxBulkEvents (eventService c) = m)
      \<and> (createEventTimeout a = Some t \<and> t \<noteq> Num 0 \<and> t \<noteq> NaN \<longrightarrow>
            svc_createEventTimeout (eventService c) = t)
      \<and> (maxBulkEvents a = Some (Num 0) \<or> maxBulkEvents a = Some NaN \<longrightarrow>
            svc_maxBulkEvents (eventService c) = Num 1000)
      \<and> (createEventTimeout a = Some (Num 0) \<or> createEventTimeout a = Some NaN \<longrightarrow>
            svc_createEventTimeout (eventService c) = Num 5000))"
  by (auto simp add: createAuditLogClient_settings [OF assms] or_number_cases)

lemmas example_config_defs =
  example_config_def example_database_def example_crypto_def example_service_def

lemmas factory_defs =
  createAuditLogClient_def validateConfig_def requiredDbProps_def database_prop_def
  js_string_def js_number_def or_string_def or_number_def Let_def
  new_AuditLogClient_def new_EventService_def new_EventRepository_def new_CryptoService_def
  Database_getInstance_def getPool_def setContext_def

theorem C3_application_defaults_witness:
  "createAuditLogClient example_config = Inr (new_AuditLogClient example_service)
   \<and> application example_config = None
   \<and> svc_maxBulkEvents (eventService (new_AuditLogClient example_service)) = Num 1000
   \<and> svc_createEventTimeout (eventService (new_AuditLogClient example_service)) = Num 5000
   \<and> createAuditLogClient
        (example_config\<lparr>application :=
           Some \<lparr>maxBulkEvents = Some (Num 250), createEventTimeout = None\<rparr>\<rparr>)
       = Inr (new_AuditLogClient (example_service\<lparr>svc_maxBulkEvents := Num 250\<rparr>))
   \<and> svc_maxBulkEvents
        (eventService (new_AuditLogClient (example_service\<lparr>svc_maxBulkEvents := Num 250\<rparr>)))
       = Num 250
   \<and> svc_createEventTimeout
        (eventService (new_AuditLogClient (example_service\<lparr>svc_maxBulkEvents := Num 250\<rparr>)))
       = Num 5000"
proof -
  have h1: "createAuditLogClient example_config = Inr (new_AuditLogClient example_service)"
    by (simp add: factory_defs example_config_defs)
  have h2: "createAuditLogClient
        (example_config\<lparr>application :=
           Some \<lparr>maxBulkEvents = Some (Num 250), createEventTimeout = None\<rparr>\<rparr>)
       = Inr (new_AuditLogClient (example_service\<lparr>svc_maxBulkEvents := Num 250\<rparr>))"
    by (simp add: factory_defs example_config_defs)
  show ?thesis
    using h1 h2 C3_application_defaults [OF h1]
      C3_application_defaults [OF h2,
        where a = "\<lparr>maxBulkEvents = Some (Num 250), createEventTimeout = None\<rparr>"
          and m = "Num 250"]
    by (simp add: example_config_def)
qed

text \<open>
  With \<open>maxBulkEvents: 0\<close> and \<open>createEventTimeout: 0\<close> both supplied, the event service
  is constructed with 1000 and 5000.
\<close>

theorem C3_counterexample:
  "map_sum id (\<lambda>c. (svc_maxBulkEvents (eventService c), svc_createEventTimeout (eventService c)))
     (createAuditLogClient
        (example_config\<lparr>application :=
           Some \<lparr>maxBulkEvents = Some (Num 0), createEventTimeout = Some (Num 0)\<rparr>\<rparr>))
   = Inr (Num 1000, Num 5000)"
  by (simp add: factory_defs example_config_defs)

text \<open>
  Claim C4. \<open>createAuditLogClient\<close> throws the error of \<open>validateConfig\<close> for every
  configuration whose \<open>crypto\<close> section, \<open>privateKey\<close> or \<open>publicKey\<close> is missing (absent
  or the empty string); once the database section has passed, the message names the
  missing key. For every accepted configuration the \<open>CryptoService\<close> is constructed with
  algorithm \<open>RSA-SHA256\<close> when \<open>algorithm\<close> is omitted, hash algorithm \<open>sha256\<close> when
  \<open>hashAlgorithm\<close> is omitted, and the two keys of the configuration.
\<close>

theorem C4_crypto_configuration:
  "((crypto config = None
      \<or> (crypto config = Some cr
          \<and> (privateKey cr = None \<or> privateKey cr = Some []
              \<or> publicKey cr = None \<or> publicKey cr = Some [])))
     \<longrightarrow> (\<exists>err. validateConfig config = Inl err \<and> createAuditLogClient config = Inl err))
   \<and> (database config = Some db \<and> check_required db requiredDbProps = Inr ()
        \<and> crypto config = Some cr \<and> (privateKey cr = None \<or> privateKey cr = Some [])
     \<longrightarrow> createAuditLogClient config = Inl (Error ''Crypto.privateKey is required''))
   \<and> (database config = Some db \<and> check_required db requiredDbProps = Inr ()
        \<and> crypto config = Some cr \<and> privateKey cr = Some k \<and> k \<noteq> []
        \<and> (publicKey cr = None \<or> publicKey cr = Some [])
     \<longrightarrow> createAuditLogClient config = Inl (Error ''Crypto.publicKey is required''))
   \<and> (createAuditLogClient config = Inr c \<longrightarrow>
        (\<exists>cro. crypto config = Some cro
           \<and> ((algorithm cro = None \<or> algorithm cro = Some []) \<longrightarrow>
                 algorithm (crypto_options (cryptoService (eventService c))) = Some ''RSA-SHA256'')
           \<and> ((hashAlgorithm cro = None \<or> hashAlgorithm cro = Some []) \<longrightarrow>
                 hashAlgorithm (crypto_options (cryptoService (eventService c))) = Some ''sha256'')
           \<and> privateKey (crypto_options (cryptoService (eventService c))) = privateKey cro
           \<and> publicKey (crypto_options (cryptoService (eventService c))) = publicKey cro))"
    (is "(?A1 \<longrightarrow> ?B1) \<and> (?A2 \<longrightarrow> ?B2) \<and> (?A3 \<longrightarrow> ?B3) \<and> (?A4 \<longrightarrow> ?B4)")
proof (intro conjI impI)
  assume ?A1
  then have "\<exists>err. validateConfig config = Inl err"
    by (auto simp add: validateConfig_def js_string_def split: option.splits sum.splits)
  then show ?B1
    by (auto simp add: createAuditLogClient_throws)
next
  assume ?A2
  then have "validateConfig config = Inl (Error ''Crypto.privateKey is required'')"
    by (auto simp add: validateConfig_def js_string_def)
  then show ?B2
    by (rule createAuditLogClient_throws)
next
  assume ?A3
  then have "validateConfig config = Inl (Error ''Crypto.publicKey is required'')"
    by (auto simp add: validateConfig_def js_string_def)
  then show ?B3
    by (rule createAuditLogClient_throws)
next
  assume ?A4
  from createAuditLogClient_crypto [OF this] show ?B4
    by (auto simp add: or_string_def js_string_def)
qed

theorem C4_crypto_configuration_witness:
  "createAuditLogClient
      (example_config\<lparr>crypto := Some (example_crypto\<lparr>privateKey := None\<rparr>)\<rparr>)
     = Inl (Error ''Crypto.privateKey is required'')
   \<and> createAuditLogClient
      (example_config\<lparr>crypto := Some (example_crypto\<lparr>publicKey := None\<rparr>)\<rparr>)
     = Inl (Error ''Crypto.publicKey is required'')
   \<and> createAuditLogClient example_config = Inr (new_AuditLogClient example_service)
   \<and> algorithm example_crypto = None \<and> hashAlgorithm example_crypto = None
   \<and> algorithm (crypto_options (cryptoService (eventService (new_AuditLogClient example_service))))
       = Some ''RSA-SHA256''
   \<and> hashAlgorithm (crypto_options (cryptoService (eventService (new_AuditLogClient example_service))))
       = Some ''sha256''"
proof -
  have db: "check_required example_database requiredDbProps = Inr ()"
    by (simp add: requiredDbProps_def database_prop_def example_database_def js_string_def
        js_number_def)
  have ok: "createAuditLogClient example_config = Inr (new_AuditLogClient example_service)"
    by (simp add: factory_defs example_config_defs)
  show ?thesis
    using db ok
      C4_crypto_configuration [where db = example_database
        and config = "example_config\<lparr>crypto := Some (example_crypto\<lparr>privateKey := None\<rparr>)\<rparr>"
        and cr = "example_crypto\<lparr>privateKey := None\<rparr>"]
      C4_crypto_configuration [where db = example_database
        and config = "example_config\<lparr>crypto := Some (example_crypto\<lparr>publicKey := None\<rparr>)\<rparr>"
        and cr = "example_crypto\<lparr>publicKey := None\<rparr>" and k = "''PRIVATE KEY''"]
      C4_crypto_configuration [where config = example_config
        and c = "new_AuditLogClient example_service"]
    by (simp add: example_config_def example_crypto_def)
qed

text \<open>
  Claim C8. For every accepted configuration, the returned client has a context bound
  if and only if the configuration supplies both \<open>context.projectId\<close> and
  \<open>context.environmentId\<close> non-empty, and then it is bound to these two values. If
  either is absent or empty, both fields of the client are null, each of the seven
  operations throws the context error without calling the event service, and
  \<open>setContext\<close> with non-empty strings makes the guard pass.
\<close>

theorem C8_default_context:
  fixes methods :: "('a, 'q, 'r) service_methods"
  assumes "createAuditLogClient config = Inr c"
  shows
    "((projectId c \<noteq> None \<and> environmentId c \<noteq> None) \<longleftrightarrow>
        (\<exists>x p e. default_context config = Some x \<and> ctx_projectId x = Some p \<and> p \<noteq> []
           \<and> ctx_environmentId x = Some e \<and> e \<noteq> []))
   \<and> (default_context config = Some x \<and> ctx_projectId x = Some p \<and> p \<noteq> []
        \<and> ctx_environmentId x = Some e \<and> e \<noteq> []
      \<longrightarrow> projectId c = Some p \<and> environmentId c = Some e)
   \<and> ((default_context config = None
        \<or> (default_context config = Some x
            \<and> (ctx_projectId x = None \<or> ctx_projectId x = Some []
                \<or> ctx_environmentId x = None \<or> ctx_environmentId x = Some [])))
      \<longrightarrow> projectId c = None \<and> environmentId c = None
        \<and> createEvent methods c ev = (Inl context_not_set, [])
        \<and> createEvents methods c evs = (Inl context_not_set, [])
        \<and> queryEvents methods c q = (Inl context_not_set, [])
        \<and> getEvent methods c i = (Inl context_not_set, [])
        \<and> validateEvents methods c startTime endTime = (Inl context_not_set, [])
        \<and> sealEvents methods c upToTime = (Inl context_not_set, [])
        \<and> exportToWorm methods c startTime endTime = (Inl context_not_set, [])
        \<and> (p' \<noteq> [] \<and> e' \<noteq> [] \<longrightarrow> validateContext (setContext c p' e') = Inr ()))"
    (is "?I \<and> (?A \<longrightarrow> ?B) \<and> (?C \<longrightarrow> ?D)")
proof (intro conjI)
  note ctx = createAuditLogClient_context [OF assms]
  show ?I
    using ctx by (auto split: option.splits if_splits simp add: Option.bind_eq_Some_conv)
  show "?A \<longrightarrow> ?B"
    using ctx by auto
  show "?C \<longrightarrow> ?D"
  proof
    assume ?C
    then have none: "projectId c = None" "environmentId c = None"
      using ctx by (auto split: option.splits if_splits)
    then have v: "validateContext c = Inl context_not_set"
      by (simp add: validateContext_missing)
    show ?D
      by (simp add: none operations_throw [OF v] validateContext_set setContext_fields)
  qed
qed

theorem C8_default_context_witness:
  "createAuditLogClient
      (example_config\<lparr>default_context :=
         Some \<lparr>ctx_projectId = Some ''P'', ctx_environmentId = Some ''E''\<rparr>\<rparr>)
     = Inr example_client
   \<and> projectId example_client = Some ''P'' \<and> environmentId example_client = Some ''E''
   \<and> createAuditLogClient
      (example_config\<lparr>default_context :=
         Some \<lparr>ctx_projectId = Some ''P'', ctx_environmentId = None\<rparr>\<rparr>)
     = Inr (new_AuditLogClient example_service)
   \<and> projectId (new_AuditLogClient example_service) = None
   \<and> environmentId (new_AuditLogClient example_service) = None
   \<and> getEvent example_methods (new_AuditLogClient example_service) ''7d3c''
       = (Inl context_not_set, [])
   \<and> validateContext (setContext (new_AuditLogClient example_service) ''P'' ''E'') = Inr ()"
proof -
  have h1: "createAuditLogClient
      (example_config\<lparr>default_context :=
         Some \<lparr>ctx_projectId = Some ''P'', ctx_environmentId = Some ''E''\<rparr>\<rparr>)
     = Inr example_client"
    by (simp add: factory_defs example_config_defs example_client_def)
  have h2: "createAuditLogClient
      (example_config\<lparr>default_context :=
         Some \<lparr>ctx_projectId = Some ''P'', ctx_environmentId = None\<rparr>\<rparr>)
     = Inr (new_AuditLogClient example_service)"
    by (simp add: factory_defs example_config_defs)
  show ?thesis
    using h1 h2
      C8_default_context [OF h1,
        where x = "\<lparr>ctx_projectId = Some ''P'', ctx_environmentId = Some ''E''\<rparr>"
          and p = "''P''" and e = "''E''"]
      C8_default_context [OF h2,
        where x = "\<lparr>ctx_projectId = Some ''P'', ctx_environmentId = None\<rparr>"
          and methods = example_methods and i = "''7d3c''" and p' = "''P''" and e' = "''E''"]
    by simp
qed

text \<open>
  Claim C10. For every configuration whose database section has a non-empty \<open>host\<close>,
  \<open>user\<close> and \<open>database\<close> and a \<open>port\<close> other than 0 and NaN, and whose crypto section
  has both keys non-empty, validation succeeds and the factory returns a client, whatever
  \<open>password\<close> is (absent, empty or any string). Of the database options only \<open>host\<close>,
  \<open>port\<close>, \<open>user\<close> and \<open>database\<close> are read: for any configuration, changing \<open>password\<close>,
  \<open>ssl\<close>, \<open>poolSize\<close>, \<open>idleTimeoutMillis\<close> and \<open>debug\<close> does not change the result of
  the validation.
\<close>

theorem C10_password_not_required:
  assumes "database config = Some db"
    and "host db = Some h" and "h \<noteq> []"
    and "port db = Some n" and "n \<noteq> Num 0" and "n \<noteq> NaN"
    and "user db = Some u" and "u \<noteq> []"
    and "database_name db = Some d" and "d \<noteq> []"
    and "crypto config = Some cr"
    and "privateKey cr = Some k1" and "k1 \<noteq> []"
    and "publicKey cr = Some k2" and "k2 \<noteq> []"
  shows
    "validateConfig config = Inr ()
     \<and> validateConfig (config\<lparr>database := Some (db\<lparr>password := pw\<rparr>)\<rparr>) = Inr ()
     \<and> (\<exists>c. createAuditLogClient (config\<lparr>database := Some (db\<lparr>password := pw\<rparr>)\<rparr>) = Inr c)
     \<and> validateConfig
          (config'\<lparr>database :=
             Some (db'\<lparr>password := pw', ssl := s, poolSize := ps, idleTimeoutMillis := it,
                       debug := dg\<rparr>)\<rparr>)
         = validateConfig (config'\<lparr>database := Some db'\<rparr>)"
proof -
  have num: "truthy (JNumber n)"
    using \<open>n \<noteq> Num 0\<close> \<open>n \<noteq> NaN\<close> by (cases n) simp_all
  have v0: "validateConfig config = Inr ()"
    using assms num
    by (simp add: validateConfig_def requiredDbProps_def database_prop_def js_string_def
        js_number_def)
  have v: "validateConfig (config\<lparr>database := Some (db\<lparr>password := pw\<rparr>)\<rparr>) = Inr ()"
    using assms num
    by (simp add: validateConfig_def requiredDbProps_def database_prop_def js_string_def
        js_number_def)
  have c: "\<exists>c. createAuditLogClient (config\<lparr>database := Some (db\<lparr>password := pw\<rparr>)\<rparr>) = Inr c"
    using \<open>crypto config = Some cr\<close>
    by (simp add: createAuditLogClient_def v Let_def)
  have f: "validateConfig
          (config'\<lparr>database :=
             Some (db'\<lparr>password := pw', ssl := s, poolSize := ps, idleTimeoutMillis := it,
                       debug := dg\<rparr>)\<rparr>)
         = validateConfig (config'\<lparr>database := Some db'\<rparr>)"
    by (simp add: validateConfig_def requiredDbProps_def database_prop_def)
  show ?thesis
    using v0 v c f by simp
qed

theorem C10_password_not_required_witness:
  "password example_database = None
   \<and> validateConfig example_config = Inr ()
   \<and> validateConfig
        (example_config\<lparr>database := Some (example_database\<lparr>password := Some []\<rparr>)\<rparr>)
       = Inr ()
   \<and> validateConfig
        (example_config\<lparr>database :=
           Some (example_database\<lparr>password := Some ''secret'', ssl := Some True,
                  poolSize := Some (Num 20), idleTimeoutMillis := Some (Num 30000),
                  debug := Some False\<rparr>)\<rparr>)
       = validateConfig (example_config\<lparr>database := Some example_database\<rparr>)"
proof -
  have h: "database example_config = Some example_database"
    "host example_database = Some ''localhost''" "''localhost'' \<noteq> []"
    "port example_database = Some (Num 5432)" "Num 5432 \<noteq> Num 0" "Num 5432 \<noteq> NaN"
    "user example_database = Some ''postgres''" "''postgres'' \<noteq> []"
    "database_name example_database = Some ''audit_logs''" "''audit_logs'' \<noteq> []"
    "crypto example_config = Some example_crypto"
    "privateKey example_crypto = Some ''PRIVATE KEY''" "''PRIVATE KEY'' \<noteq> []"
    "publicKey example_crypto = Some ''PUBLIC KEY''" "''PUBLIC KEY'' \<noteq> []"
    by (simp_all add: example_config_def example_database_def example_crypto_def)
  have p: "password example_database = None"
    by (simp add: example_database_def)
  from C10_password_not_required [OF h, where pw = "Some []" and pw' = "Some ''secret''"
      and config' = example_config and db' = example_database and s = "Some True"
      and ps = "Some (Num 20)" and it = "Some (Num 30000)" and dg = "Some False"]
  show ?thesis
    using p by simp
qed

section \<open>The schema: constraints and defaults\<close>

lemma map_of_columns:
  "map_of (map (\<lambda>c. (col_name c, f c)) cols) n = map_option f (find (\<lambda>c. col_name c = n) cols)"
  by (induction cols) auto

lemma map_of_filter_name:
  "map_of (filter (\<lambda>nv. fst nv \<noteq> k) given) n = (if n = k then None else map_of given n)"
  by (induction given) auto

lemma insert_row_iff:
  "insert_row cols tbl seq given = Inr r \<longleftrightarrow>
     set (map fst given) \<subseteq> set (map col_name cols) \<and> distinct (map fst given)
     \<and> (\<forall>c \<in> set cols. fits (col_type c) (stored_value given seq c)
            \<and> (required_col c \<longrightarrow> stored_value given seq c \<noteq> SqlNull)
            \<and> \<not> key_taken tbl c (stored_value given seq c))
     \<and> r = map (\<lambda>c. (col_name c, stored_value given seq c)) cols"
  by (auto simp add: insert_row_def list_ex_iff)

lemma insert_row_value:
  assumes "insert_row cols tbl seq given = Inr r"
    and "find (\<lambda>c. col_name c = n) cols = Some c"
  shows "map_of r n = Some (stored_value given seq c)"
  using assms by (simp add: insert_row_iff map_of_columns)

lemma insert_row_required:
  assumes "insert_row cols tbl seq given = Inr r"
    and "find (\<lambda>c. col_name c = n) cols = Some c"
    and "required_col c"
  shows "\<exists>v. map_of r n = Some v \<and> v \<noteq> SqlNull"
proof -
  have "c \<in> set cols"
    using assms(2) by (auto simp add: find_Some_iff)
  then have "stored_value given seq c \<noteq> SqlNull"
    using assms(1,3) by (simp add: insert_row_iff)
  then show ?thesis
    using insert_row_value [OF assms(1,2)] by simp
qed

lemma insert_row_rejected:
  assumes "find (\<lambda>c. col_name c = n) cols = Some c"
    and "required_col c"
    and "stored_value given seq c = SqlNull"
  shows "\<exists>err. insert_row cols tbl seq given = Inl err"
proof -
  have "c \<in> set cols"
    using assms(1) by (auto simp add: find_Some_iff)
  then have "\<And>r. insert_row cols tbl seq given \<noteq> Inr r"
    using assms(2,3) by (auto simp add: insert_row_iff)
  then show ?thesis
    by (cases "insert_row cols tbl seq given") auto
qed

lemma insert_row_without_column:
  assumes "insert_row cols tbl seq given = Inr r"
    and "\<forall>c \<in> set cols. col_name c = k \<longrightarrow>
           \<not> required_col c \<and> \<not> primary_key c \<and> default_value seq c = SqlNull"
  shows "\<exists>r'. insert_row cols tbl seq (filter (\<lambda>nv. fst nv \<noteq> k) given) = Inr r'"
proof -
  let ?given = "filter (\<lambda>nv. fst nv \<noteq> k) given"
  have sv: "stored_value ?given seq c =
      (if col_name c = k then default_value seq c else stored_value given seq c)" for c
    by (simp add: stored_value_def map_of_filter_name)
  have names: "set (map fst ?given) \<subseteq> set (map col_name cols)"
    using assms(1) by (auto simp add: insert_row_iff)
  have dist: "distinct (map fst ?given)"
    using assms(1) by (simp add: insert_row_iff distinct_map_filter)
  have each: "fits (col_type c) (stored_value ?given seq c)
      \<and> (required_col c \<longrightarrow> stored_value ?given seq c \<noteq> SqlNull)
      \<and> \<not> key_taken tbl c (stored_value ?given seq c)" if "c \<in> set cols" for c
  proof (cases "col_name c = k")
    case True
    then show ?thesis
      using assms(2) that by (simp add: sv key_taken_def)
  next
    case False
    then show ?thesis
      using assms(1) that by (simp add: sv insert_row_iff)
  qed
  show ?thesis
    using names dist each by (simp add: insert_row_iff)
qed

lemma insert_row_explicit_default:
  assumes "map_of given n = None"
    and "n \<in> set (map col_name cols)"
    and "\<forall>c \<in> set cols. col_name c = n \<longrightarrow> default_value seq c = v"
  shows "insert_row cols tbl seq ((n, v) # given) = insert_row cols tbl seq given"
proof -
  have sv: "\<forall>c \<in> set cols. stored_value ((n, v) # given) seq c = stored_value given seq c"
    using assms(1,3) by (auto simp add: stored_value_def)
  have d: "n \<notin> set (map fst given)"
    using assms(1) by (simp add: map_of_eq_None_iff)
  have m: "map (\<lambda>c. (col_name c, stored_value ((n, v) # given) seq c)) cols
      = map (\<lambda>c. (col_name c, stored_value given seq c)) cols"
    using sv by simp
  show ?thesis
    using sv d assms(2) unfolding insert_row_def m
    by (auto simp add: list_ex_iff)
qed

lemma insert_all_rows:
  "insert_all cols tbl0 gs = Inr tbl \<Longrightarrow> r \<in> set tbl \<Longrightarrow>
   r \<in> set tbl0 \<or> (\<exists>tb seq g. insert_row cols tb seq g = Inr r)"
proof (induction gs arbitrary: tbl0)
  case Nil
  then show ?case by simp
next
  case (Cons g gs)
  then show ?case
    by (fastforce split: sum.splits)
qed

lemmas column_defs = nullable_col_def not_null_col_def primary_key_col_def default_col_def

lemma tables_exec_ddl:
  "tables (exec_ddl cat (CreateTableIfNotExists name cols)) n =
     (if name = n \<and> tables cat n = None then Some cols else tables cat n)"
  "tables (exec_ddl cat (CreateIndexIfNotExists name tbl ics)) n = tables cat n"
  by auto

lemma tables_initializeDatabase:
  "tables (initializeDatabase cat) n =
     (if tables cat n \<noteq> None then tables cat n
      else if n = ''audit_events'' then Some audit_events_columns
      else if n = ''ingest_task'' then Some ingest_task_columns
      else if n = ''backlog'' then Some backlog_columns
      else None)"
  unfolding initializeDatabase_def schema_statements_def foldl_Cons foldl_Nil tables_exec_ddl
  by simp

lemma initializeDatabase_audit_events:
  "tables cat ''audit_events'' = None \<Longrightarrow>
   tables (initializeDatabase cat) ''audit_events'' = Some audit_events_columns"
  by (simp add: tables_initializeDatabase)

lemma initializeDatabase_backlog:
  "tables cat ''backlog'' = None \<Longrightarrow>
   tables (initializeDatabase cat) ''backlog'' = Some backlog_columns"
  by (simp add: tables_initializeDatabase)

lemma audit_events_column:
  "find (\<lambda>c. col_name c = ''hash'') audit_events_columns = Some (not_null_col ''hash'' (VARCHAR 128))"
  "find (\<lambda>c. col_name c = ''signature'') audit_events_columns = Some (not_null_col ''signature'' TEXT)"
  "find (\<lambda>c. col_name c = ''previous_hash'') audit_events_columns
     = Some (nullable_col ''previous_hash'' (VARCHAR 128))"
  by (simp_all add: audit_events_columns_def column_defs)

lemma previous_hash_column:
  "''previous_hash'' \<in> set (map col_name audit_events_columns)"
  "\<forall>c \<in> set audit_events_columns. col_name c = ''previous_hash'' \<longrightarrow>
     \<not> required_col c \<and> \<not> primary_key c \<and> default_value seq c = SqlNull"
  by (simp_all add: audit_events_columns_def column_defs default_value_def required_col_def)

lemma backlog_column:
  "find (\<lambda>c. col_name c = ''processed'') backlog_columns
     = Some (default_col ''processed'' BOOLEAN (SqlBool False))"
  "find (\<lambda>c. col_name c = ''attempts'') backlog_columns
     = Some (default_col ''attempts'' INTEGER (SqlInt 0))"
  by (simp_all add: backlog_columns_def column_defs)

lemmas insert_eval =
  insert_row_def column_defs stored_value_def default_value_def required_col_def
  key_taken_def uuid_text_def hex_digit_def

lemma example_row_inserted:
  "insert_row audit_events_columns [] 1 example_event = Inr example_row"
  by (simp add: insert_eval example_row_def audit_events_columns_def example_event_def)

lemma second_row_inserted:
  "insert_row audit_events_columns [example_row] 2 second_event = Inr second_row"
  by (simp add: insert_eval example_row_def second_row_def audit_events_columns_def
      example_event_def second_event_def)

lemma example_row_fields:
  "map_of example_row ''id'' = Some (SqlText ''7d3c1f0a-5b2e-4c8d-9a6f-0123456789ab'')"
  "map_of example_row ''project_id'' = Some (SqlText ''P'')"
  "map_of example_row ''environment_id'' = Some (SqlText ''E'')"
  "map_of example_row ''hash'' = Some (SqlText ''ab12'')"
  "map_of example_row ''signature'' = Some (SqlText ''c2ln'')"
  "map_of example_row ''previous_hash'' = Some SqlNull"
  by (simp_all add: example_row_def audit_events_columns_def example_event_def
      column_defs stored_value_def default_value_def)

lemma second_row_fields:
  "map_of second_row ''id'' = Some (SqlText ''0b9e4c2d-1a3f-4e5b-8c7d-ba9876543210'')"
  "map_of second_row ''project_id'' = Some (SqlText ''P'')"
  "map_of second_row ''environment_id'' = Some (SqlText ''E'')"
  "map_of second_row ''hash'' = Some (SqlText ''cd34'')"
  "map_of second_row ''previous_hash'' = Some SqlNull"
  by (simp_all add: second_row_def audit_events_columns_def second_event_def
      column_defs stored_value_def default_value_def)

lemma example_catalog:
  "tables empty_catalog ''audit_events'' = None"
  "tables (initializeDatabase empty_catalog) ''audit_events'' = Some audit_events_columns"
  "tables empty_catalog ''backlog'' = None"
  "tables (initializeDatabase empty_catalog) ''backlog'' = Some backlog_columns"
  by (simp_all add: tables_initializeDatabase empty_catalog_def)

text \<open>
  Claim C6, amended. In the \<open>audit_events\<close> table that \<open>initializeDatabase\<close> creates,
  \<open>hash\<close> and \<open>signature\<close> are not nullable: an insert that leaves one of them out or
  writes \<open>NULL\<close> is refused, so every committed event (every row of a table filled by
  inserts) carries a hash and a signature. \<open>previous_hash\<close> is nullable: whatever rows
  the table already holds, an insert that is accepted is also accepted without its
  \<open>previous_hash\<close> and then stores \<open>NULL\<close>, and writing \<open>NULL\<close> is the same as leaving
  the column out. So a genesis event can be stored with \<open>previous_hash\<close> null; the
  schema does not reserve null for genesis events (a later event of a stream is accepted
  with it as well, as shown after the witness).
\<close>

theorem C6_chain_columns:
  assumes "tables cat ''audit_events'' = None"
    and "tables (initializeDatabase cat) ''audit_events'' = Some cols"
  shows
    "((map_of given ''hash'' = None \<or> map_of given ''hash'' = Some SqlNull
        \<or> map_of given ''signature'' = None \<or> map_of given ''signature'' = Some SqlNull)
       \<longrightarrow> (\<exists>err. insert_row cols tbl seq given = Inl err))
     \<and> (insert_row cols tbl seq given = Inr r
       \<longrightarrow> (\<exists>r'. insert_row cols tbl seq (filter (\<lambda>nv. fst nv \<noteq> ''previous_hash'') given) = Inr r'
                \<and> map_of r' ''previous_hash'' = Some SqlNull))
     \<and> (map_of given ''previous_hash'' = None
       \<longrightarrow> insert_row cols tbl seq ((''previous_hash'', SqlNull) # given)
             = insert_row cols tbl seq given)
     \<and> (insert_all cols [] inserts = Inr rows \<and> x \<in> set rows
       \<longrightarrow> (\<exists>h s. map_of x ''hash'' = Some h \<and> h \<noteq> SqlNull
                  \<and> map_of x ''signature'' = Some s \<and> s \<noteq> SqlNull))"
    (is "(?A1 \<longrightarrow> ?B1) \<and> (?A2 \<longrightarrow> ?B2) \<and> (?A3 \<longrightarrow> ?B3) \<and> (?A4 \<longrightarrow> ?B4)")
proof -
  have cols: "cols = audit_events_columns"
    using assms initializeDatabase_audit_events by simp
  have req: "required_col (not_null_col ''hash'' (VARCHAR 128))"
    "required_col (not_null_col ''signature'' TEXT)"
    by (simp_all add: required_col_def not_null_col_def)
  have one: "?A1 \<longrightarrow> ?B1"
  proof
    assume a: ?A1
    have "stored_value given seq (not_null_col ''hash'' (VARCHAR 128)) = SqlNull
        \<or> stored_value given seq (not_null_col ''signature'' TEXT) = SqlNull"
      using a by (auto simp add: stored_value_def default_value_def not_null_col_def)
    then show ?B1
      using insert_row_rejected [OF audit_events_column(1) req(1)]
        insert_row_rejected [OF audit_events_column(2) req(2)] cols
      by auto
  qed
  have two: "?A2 \<longrightarrow> ?B2"
  proof
    assume a: ?A2
    then have ins: "insert_row audit_events_columns tbl seq given = Inr r"
      using cols by simp
    obtain r' where r':
      "insert_row audit_events_columns tbl seq
         (filter (\<lambda>nv. fst nv \<noteq> ''previous_hash'') given) = Inr r'"
      using insert_row_without_column [OF ins previous_hash_column(2)] by auto
    have "map_of r' ''previous_hash'' = Some SqlNull"
      using insert_row_value [OF r' audit_events_column(3)]
      by (simp add: stored_value_def default_value_def nullable_col_def map_of_filter_name)
    then show ?B2
      using r' cols by auto
  qed
  have three: "?A3 \<longrightarrow> ?B3"
  proof
    assume a: ?A3
    show ?B3
      unfolding cols
      using a previous_hash_column
      by (intro insert_row_explicit_default) simp_all
  qed
  have four: "?A4 \<longrightarrow> ?B4"
  proof
    assume a: ?A4
    then obtain tb sq g where ins: "insert_row audit_events_columns tb sq g = Inr x"
      using insert_all_rows [of cols "[]" inserts rows x] cols by auto
    show ?B4
      using insert_row_required [OF ins audit_events_column(1) req(1)]
        insert_row_required [OF ins audit_events_column(2) req(2)]
      by auto
  qed
  show ?thesis
    using one two three four by blast
qed

text \<open>
  On the table holding the first event of stream (P, E): a second event without a hash
  is refused; with \<open>previous_hash\<close> set to the first event's hash it is accepted, and
  without \<open>previous_hash\<close> it is accepted too and stores \<open>NULL\<close>.
\<close>

theorem C6_chain_columns_witness:
  "tables empty_catalog ''audit_events'' = None
   \<and> tables (initializeDatabase empty_catalog) ''audit_events'' = Some audit_events_columns
   \<and> (\<exists>err. insert_row audit_events_columns [example_row] 2
               (filter (\<lambda>nv. fst nv \<noteq> ''hash'') second_event) = Inl err)
   \<and> (\<exists>r. insert_row audit_events_columns [example_row] 2
             ((''previous_hash'', SqlText ''ab12'') # second_event) = Inr r)
   \<and> insert_row audit_events_columns [example_row] 2 second_event = Inr second_row
   \<and> map_of second_row ''previous_hash'' = Some SqlNull
   \<and> insert_row audit_events_columns [] 1 ((''previous_hash'', SqlNull) # example_event)
       = Inr example_row
   \<and> insert_all audit_events_columns [] [example_event] = Inr [example_row]
   \<and> map_of example_row ''hash'' = Some (SqlText ''ab12'')
   \<and> map_of example_row ''signature'' = Some (SqlText ''c2ln'')"
proof -
  have linked: "\<exists>r. insert_row audit_events_columns [example_row] 2
             ((''previous_hash'', SqlText ''ab12'') # second_event) = Inr r"
    by (simp add: insert_eval example_row_def audit_events_columns_def example_event_def
        second_event_def)
  then obtain r where r: "insert_row audit_events_columns [example_row] 2
             ((''previous_hash'', SqlText ''ab12'') # second_event) = Inr r"
    by auto
  have f: "filter (\<lambda>nv. fst nv \<noteq> ''previous_hash'')
      ((''previous_hash'', SqlText ''ab12'') # second_event) = second_event"
    by (simp add: second_event_def)
  have omitted: "map_of (filter (\<lambda>nv. fst nv \<noteq> ''hash'') second_event) ''hash'' = None"
    "map_of example_event ''previous_hash'' = None"
    by (simp_all add: second_event_def example_event_def)
  have all: "insert_all audit_events_columns [] [example_event] = Inr [example_row]"
    by (simp add: example_row_inserted)
  show ?thesis
    using example_catalog(1,2) linked f omitted all example_row_inserted second_row_inserted
      example_row_fields second_row_fields
      C6_chain_columns [OF example_catalog(1,2),
        where given = "filter (\<lambda>nv. fst nv \<noteq> ''hash'') second_event"
          and tbl = "[example_row]" and seq = 2]
      C6_chain_columns [OF example_catalog(1,2),
        where given = "(''previous_hash'', SqlText ''ab12'') # second_event"
          and tbl = "[example_row]" and seq = 2 and r = r]
      C6_chain_columns [OF example_catalog(1,2), where given = example_event and tbl = "[]"
          and seq = 1 and inserts = "[example_event]" and rows = "[example_row]"
          and x = example_row]
      r
    by simp
qed

text \<open>
  Two events of the same stream (P, E), inserted one after the other, are both committed
  with \<open>previous_hash\<close> null: the second is not a genesis event.
\<close>

theorem C6_counterexample:
  "tables (initializeDatabase empty_catalog) ''audit_events'' = Some audit_events_columns
   \<and> insert_all audit_events_columns [] [example_event, second_event]
       = Inr [example_row, second_row]
   \<and> map_of example_row ''project_id'' = Some (SqlText ''P'')
   \<and> map_of example_row ''environment_id'' = Some (SqlText ''E'')
   \<and> map_of example_row ''previous_hash'' = Some SqlNull
   \<and> map_of second_row ''project_id'' = Some (SqlText ''P'')
   \<and> map_of second_row ''environment_id'' = Some (SqlText ''E'')
   \<and> map_of second_row ''previous_hash'' = Some SqlNull
   \<and> map_of second_row ''id'' \<noteq> map_of example_row ''id''"
  by (simp add: example_catalog example_row_inserted second_row_inserted example_row_fields
      second_row_fields)

text \<open>
  Claim C7, amended. In the \<open>backlog\<close> table that \<open>initializeDatabase\<close> creates, a row
  created by an insert that names neither \<open>processed\<close> nor \<open>attempts\<close> starts with
  \<open>processed = false\<close> and \<open>attempts = 0\<close>, the column defaults, and so satisfies the
  backlog-progress invariant for every positive \<open>MAX_ATTEMPTS\<close>. An insert that names
  one of the two columns stores the value it gives; the schema does not constrain it
  (as shown after the witness).
\<close>

theorem C7_backlog_defaults:
  assumes "tables cat ''backlog'' = None"
    and "tables (initializeDatabase cat) ''backlog'' = Some cols"
    and "insert_row cols tbl seq given = Inr r"
  shows
    "(map_of given ''processed'' = None \<longrightarrow> map_of r ''processed'' = Some (SqlBool False))
     \<and> (map_of given ''attempts'' = None \<longrightarrow> map_of r ''attempts'' = Some (SqlInt 0))
     \<and> (map_of given ''processed'' = None \<and> map_of given ''attempts'' = None
          \<and> 0 < max_attempts \<longrightarrow> backlog_progress max_attempts r)
     \<and> (map_of given ''processed'' = Some v \<longrightarrow> map_of r ''processed'' = Some v)
     \<and> (map_of given ''attempts'' = Some w \<longrightarrow> map_of r ''attempts'' = Some w)"
proof -
  have cols: "cols = backlog_columns"
    using assms(1,2) initializeDatabase_backlog by simp
  have ins: "insert_row backlog_columns tbl seq given = Inr r"
    using assms(3) cols by simp
  have p: "map_of r ''processed'' =
      Some (case map_of given ''processed'' of None \<Rightarrow> SqlBool False | Some u \<Rightarrow> u)"
    using insert_row_value [OF ins backlog_column(1)]
    by (simp add: stored_value_def default_value_def default_col_def split: option.splits)
  have a: "map_of r ''attempts'' =
      Some (case map_of given ''attempts'' of None \<Rightarrow> SqlInt 0 | Some u \<Rightarrow> u)"
    using insert_row_value [OF ins backlog_column(2)]
    by (simp add: stored_value_def default_value_def default_col_def split: option.splits)
  show ?thesis
    by (simp add: p a backlog_progress_def)
qed

theorem C7_backlog_defaults_witness:
  "tables empty_catalog ''backlog'' = None
   \<and> tables (initializeDatabase empty_catalog) ''backlog'' = Some backlog_columns
   \<and> insert_row backlog_columns [] 1 example_task = Inr (example_backlog_row (SqlInt 0))
   \<and> map_of example_task ''processed'' = None \<and> map_of example_task ''attempts'' = None
   \<and> map_of (example_backlog_row (SqlInt 0)) ''processed'' = Some (SqlBool False)
   \<and> map_of (example_backlog_row (SqlInt 0)) ''attempts'' = Some (SqlInt 0)
   \<and> (0::int) < 10
   \<and> backlog_progress 10 (example_backlog_row (SqlInt 0))"
proof -
  have ins: "insert_row backlog_columns [] 1 example_task = Inr (example_backlog_row (SqlInt 0))"
    by (simp add: insert_eval backlog_columns_def example_task_def example_backlog_row_def)
  have g: "map_of example_task ''processed'' = None" "map_of example_task ''attempts'' = None"
    by (simp_all add: example_task_def)
  show ?thesis
    using example_catalog(3,4) ins g
      C7_backlog_defaults [OF example_catalog(3,4) ins, where max_attempts = 10]
    by simp
qed

text \<open>
  An insert into the empty \<open>backlog\<close> that writes \<open>attempts = 10\<close> is accepted, and the
  row it creates breaks the invariant for \<open>MAX_ATTEMPTS = 10\<close>.
\<close>

theorem C7_counterexample:
  "tables (initializeDatabase empty_catalog) ''backlog'' = Some backlog_columns
   \<and> insert_row backlog_columns [] 1 ((''attempts'', SqlInt 10) # example_task)
       = Inr (example_backlog_row (SqlInt 10))
   \<and> map_of (example_backlog_row (SqlInt 10)) ''processed'' = Some (SqlBool False)
   \<and> map_of (example_backlog_row (SqlInt 10)) ''attempts'' = Some (SqlInt 10)
   \<and> \<not> backlog_progress 10 (example_backlog_row (SqlInt 10))"
  by (simp add: example_catalog insert_eval backlog_columns_def example_task_def
      example_backlog_row_def backlog_progress_def)

lemma get_event_found:
  "get_event store eventId p e = Some r \<Longrightarrow>
   r \<in> set store \<and> map_of r ''id'' = Some (SqlText eventId)
   \<and> map_of r ''project_id'' = map_option SqlText p
   \<and> map_of r ''environment_id'' = map_option SqlText e"
  by (auto simp add: get_event_def find_Some_iff)

lemma get_event_not_found:
  "get_event store eventId p e = None \<longleftrightarrow>
   \<not> (\<exists>r \<in> set store. map_of r ''id'' = Some (SqlText eventId)
        \<and> map_of r ''project_id'' = map_option SqlText p
        \<and> map_of r ''environment_id'' = map_option SqlText e)"
  by (auto simp add: get_event_def find_None_iff)

section \<open>Looking up one event\<close>

text \<open>
  Claim C5. On a client whose context is set (both fields bound to non-empty strings),
  with an event service whose \<open>getEvent\<close> is the scoped lookup of the specification,
  \<open>getEvent\<close> never throws: it makes one call with the bound project and environment
  and returns its result, which is null exactly when the store has no event with that id
  in that project and environment, and otherwise an event of the store with that id,
  project and environment.
\<close>

theorem C5_getEvent_found_or_null:
  fixes methods :: "('a, 'q, row option) service_methods"
  assumes "projectId c = Some p" and "p \<noteq> []" and "environmentId c = Some e" and "e \<noteq> []"
    and "\<And>i a b. methods (eventService c) (GetEvent i a b) = get_event store i a b"
  shows
    "getEvent methods c eventId =
       (Inr (get_event store eventId (Some p) (Some e)), [GetEvent eventId (Some p) (Some e)])
     \<and> (get_event store eventId (Some p) (Some e) = None \<longleftrightarrow>
          \<not> (\<exists>r \<in> set store. map_of r ''id'' = Some (SqlText eventId)
               \<and> map_of r ''project_id'' = Some (SqlText p)
               \<and> map_of r ''environment_id'' = Some (SqlText e)))
     \<and> (get_event store eventId (Some p) (Some e) = Some r \<longrightarrow>
          r \<in> set store \<and> map_of r ''id'' = Some (SqlText eventId)
          \<and> map_of r ''project_id'' = Some (SqlText p)
          \<and> map_of r ''environment_id'' = Some (SqlText e))"
proof -
  have v: "validateContext c = Inr ()"
    using assms(1-4) by (rule validateContext_set)
  have call: "getEvent methods c eventId =
       (Inr (get_event store eventId (Some p) (Some e)), [GetEvent eventId (Some p) (Some e)])"
    using assms(1,3,5) by (simp add: operations_delegate [OF v] invoke_def)
  show ?thesis
    using call get_event_found [of store eventId "Some p" "Some e" r]
      get_event_not_found [of store eventId "Some p" "Some e"]
    by simp
qed



theorem C5_getEvent_found_or_null_witness:
  "projectId example_client = Some ''P'' \<and> ''P'' \<noteq> []
   \<and> environmentId example_client = Some ''E'' \<and> ''E'' \<noteq> []
   \<and> getEvent (store_methods example_store) example_client
        ''7d3c1f0a-5b2e-4c8d-9a6f-0123456789ab''
       = (Inr (Some example_row),
          [GetEvent ''7d3c1f0a-5b2e-4c8d-9a6f-0123456789ab'' (Some ''P'') (Some ''E'')])
   \<and> getEvent (store_methods example_store) example_client
        ''0b9e4c2d-1a3f-4e5b-8c7d-ba9876543210''
       = (Inr None,
          [GetEvent ''0b9e4c2d-1a3f-4e5b-8c7d-ba9876543210'' (Some ''P'') (Some ''E'')])"
proof -
  have h: "projectId example_client = Some ''P''" "''P'' \<noteq> []"
    "environmentId example_client = Some ''E''" "''E'' \<noteq> []"
    by (simp_all add: example_client_def setContext_def)
  have m: "\<And>i a b. store_methods example_store (eventService example_client) (GetEvent i a b)
      = get_event example_store i a b"
    by (simp add: store_methods_def)
  have found: "get_event example_store ''7d3c1f0a-5b2e-4c8d-9a6f-0123456789ab''
      (Some ''P'') (Some ''E'') = Some example_row"
    by (simp add: get_event_def example_store_def example_row_fields)
  have missing: "get_event example_store ''0b9e4c2d-1a3f-4e5b-8c7d-ba9876543210''
      (Some ''P'') (Some ''E'') = None"
    by (simp add: get_event_def example_store_def example_row_fields)
  show ?thesis
    using h found missing
      C5_getEvent_found_or_null [where methods = "store_methods example_store"
        and store = example_store and eventId = "''7d3c1f0a-5b2e-4c8d-9a6f-0123456789ab''"
        and r = example_row, OF h m]
      C5_getEvent_found_or_null [where methods = "store_methods example_store"
        and store = example_store and eventId = "''0b9e4c2d-1a3f-4e5b-8c7d-ba9876543210''",
        OF h m]
    by simp
qed

end
